theory Spec2Isabelle
  imports Complex_Main
begin

section \<open>EnergyGuard AI: a shallow embedding of \<^verbatim>\<open>energyguard_ai.py\<close>\<close>

text \<open>
  The numbers of the program are Python floats read with \<^verbatim>\<open>float(input(...))\<close>. They are
  modelled as exact reals: a finite float is a real, the arithmetic of the model does not
  round, and the non-finite floats (\<^verbatim>\<open>inf\<close>, \<^verbatim>\<open>nan\<close>) are outside the model. Python's
  \<^verbatim>\<open>int\<close> is \<open>int\<close>, \<^verbatim>\<open>str\<close> is \<open>string\<close> with the two non-ASCII characters of
  the source written as their UTF-8 bytes, \<^verbatim>\<open>None\<close> is \<open>None\<close>, and every exception a
  modelled statement can raise is a value of \<open>error\<close>.
\<close>

subsection \<open>Energy record and history\<close>

text \<open>\<^verbatim>\<open>class EnergyRecord\<close>: six fields, set once in \<^verbatim>\<open>__init__\<close>.\<close>

record EnergyRecord =
  usage :: real
  expected_avg :: real
  sector :: string
  time :: string
  sunlight :: bool
  temperature :: real

text \<open>\<^verbatim>\<open>class EnergyHistory\<close>: the list \<^verbatim>\<open>records\<close>, empty at construction.\<close>

record EnergyHistory =
  records :: "EnergyRecord list"

definition EnergyHistory_init :: EnergyHistory where
  "EnergyHistory_init = \<lparr>records = []\<rparr>"

text \<open>\<^verbatim>\<open>add\<close>: \<^verbatim>\<open>self.records.append(record)\<close>; the mutated history is returned.\<close>

definition add :: "EnergyHistory \<Rightarrow> EnergyRecord \<Rightarrow> EnergyHistory" where
  "add self record = self\<lparr>records := records self @ [record]\<rparr>"


subsection \<open>Analytics core\<close>

text \<open>
  The exceptions. \<open>ZeroDivisionError\<close> is what Python's \<^verbatim>\<open>/\<close> raises on a zero
  divisor. \<open>InvalidInput\<close> is the error kind the specification names; no statement of
  the source raises it, and it is here so that statements about it can be written.
\<close>

datatype error = ZeroDivisionError | InvalidInput

text \<open>\<^verbatim>\<open>usage_ratio\<close>: \<^verbatim>\<open>record.usage / record.expected_avg\<close>, with nothing before the division.\<close>

definition usage_ratio :: "EnergyRecord \<Rightarrow> error + real" where
  "usage_ratio record =
     (if expected_avg record = 0 then Inl ZeroDivisionError
      else Inr (usage record / expected_avg record))"

text \<open>
  \<^verbatim>\<open>anomaly_detected\<close>: \<^verbatim>\<open>False\<close> on an empty list, else the comparison with
  \<^verbatim>\<open>history.records[-1].usage\<close>.
\<close>

definition anomaly_detected :: "EnergyRecord \<Rightarrow> EnergyHistory \<Rightarrow> bool" where
  "anomaly_detected record history =
     (if records history = [] then False
      else (let last_usage = usage (last (records history))
            in usage record > last_usage * 1.25))"

text \<open>\<^verbatim>\<open>alert_level\<close>: the alert is one of three Python strings.\<close>

definition alert_level :: "real \<Rightarrow> bool \<Rightarrow> string" where
  "alert_level ratio anomaly =
     (if ratio \<ge> 1.35 \<or> anomaly then ''CRITICAL''
      else if ratio \<ge> 1.15 then ''WARNING''
      else ''NORMAL'')"

text \<open>
  Python's \<^verbatim>\<open>round(x, 1)\<close> on a float: the nearest multiple of one tenth of the exact value,
  a tie going to the even last digit.
\<close>

definition round_half_even :: "real \<Rightarrow> int" where
  "round_half_even y =
     (let f = \<lfloor>y\<rfloor>; d = y - of_int f
      in if d < 1/2 then f
         else if d > 1/2 then f + 1
         else if even f then f else f + 1)"

definition py_round1 :: "real \<Rightarrow> real" where
  "py_round1 x = of_int (round_half_even (x * 10)) / 10"

text \<open>
  \<^verbatim>\<open>efficiency_score\<close>: \<^verbatim>\<open>score = 100 - abs(ratio - 1) * 75\<close>, then
  \<^verbatim>\<open>round(max(0, min(100, score)), 1)\<close>.
\<close>

definition efficiency_score :: "real \<Rightarrow> real" where
  "efficiency_score ratio =
     (let score = 100 - \<bar>ratio - 1\<bar> * 75
      in py_round1 (max 0 (min 100 score)))"

subsection \<open>Formatting a ratio\<close>

text \<open>
  \<^verbatim>\<open>f"{ratio:.2f}"\<close>: a minus sign for a negative value (also when the digits are all
  zero), the integer digits, a point and two decimals, the value rounded to the nearest
  hundredth with a tie going to the even digit.
\<close>

definition digit_char :: "nat \<Rightarrow> char" where
  "digit_char d = char_of (48 + d)"

fun nat_digits :: "nat \<Rightarrow> string" where
  "nat_digits n =
     (if n < 10 then [digit_char n] else nat_digits (n div 10) @ [digit_char (n mod 10)])"

declare nat_digits.simps [simp del]

definition format_2f :: "real \<Rightarrow> string" where
  "format_2f x =
     (let q = nat (round_half_even (\<bar>x\<bar> * 100))
      in (if x < 0 then ''-'' else []) @ nat_digits (q div 100) @ ''.'' @
         [digit_char (q mod 100 div 10), digit_char (q mod 10)])"

subsection \<open>AI decision engine\<close>

text \<open>
  \<^verbatim>\<open>KeenAIBrain.decide\<close>. The three locals \<^verbatim>\<open>reasons\<close>, \<^verbatim>\<open>actions\<close> and
  \<^verbatim>\<open>confidence\<close> are rebound by each statement in the order of the source; every
  \<^verbatim>\<open>if\<close> of the cause analysis is a statement of its own, and the action logic is one
  \<^verbatim>\<open>if\<close>/\<^verbatim>\<open>elif\<close>/\<^verbatim>\<open>else\<close> on the alert string. The multiplication sign of
  the first reason is the bytes C3 97, the arrow of the temperature reason E2 86 92.
\<close>

definition decide ::
  "EnergyRecord \<Rightarrow> real \<Rightarrow> bool \<Rightarrow> string \<Rightarrow> string list \<times> (string \<times> string) list \<times> int" where
  "decide record ratio anomaly alert =
     (let reasons = [];
          actions = [];
          confidence = 0;
          reasons = reasons @
            [''Usage is '' @ format_2f ratio @ [CHR 0xC3, CHR 0x97] @ '' expected level''];
          reasons = (if anomaly then reasons @ [''Sudden energy spike detected''] else reasons);
          (reasons, confidence) =
            (if temperature record > 30
             then (reasons @
                     [''High temperature '' @ [CHR 0xE2, CHR 0x86, CHR 0x92] @
                      '' increased cooling demand''],
                   confidence + 15)
             else (reasons, confidence));
          (reasons, confidence) =
            (if sunlight record \<and> time record = ''Day''
             then (reasons @ [''Available sunlight not optimally utilized''], confidence + 20)
             else (reasons, confidence));
          (reasons, confidence) =
            (if sector record = ''Factory''
             then (reasons @ [''Industrial processes generate recoverable waste''],
                   confidence + 20)
             else (reasons, confidence));
          (reasons, confidence) =
            (if sector record = ''Power Plant''
             then (reasons @ [''Grid-level load balancing opportunity detected''],
                   confidence + 20)
             else (reasons, confidence));
          actions =
            (if alert = ''CRITICAL'' then
               (let actions = actions @ [(''IMMEDIATE'', ''Reduce non-essential electrical load'')];
                    actions =
                      (if sunlight record
                       then actions @
                              [(''IMMEDIATE'', ''Activate Smart Daylight-Mirroring System'')]
                       else actions);
                    actions =
                      (if sector record \<in> set [''Factory'', ''Power Plant'']
                       then actions @ [(''IMMEDIATE'', ''Enable ORC Waste Energy Recovery Line'')]
                       else actions)
                in actions @ [(''HIGH'', ''Shift base load to geothermal supply'')])
             else if alert = ''WARNING'' then
               (let actions = actions @ [(''MEDIUM'', ''Optimize operational schedule'')]
                in if sunlight record
                   then actions @ [(''MEDIUM'', ''Increase daylight-based lighting usage'')]
                   else actions)
             else actions @ [(''LOW'', ''No corrective action required'')]);
          confidence = min 100 (confidence + 30)
      in (reasons, actions, confidence))"

text \<open>Names for the lines of the diagnosis and of the action plan.\<close>

abbreviation ratio_line :: "real \<Rightarrow> string" where
  "ratio_line ratio \<equiv>
     ''Usage is '' @ format_2f ratio @ [CHR 0xC3, CHR 0x97] @ '' expected level''"

abbreviation spike_line :: string where
  "spike_line \<equiv> ''Sudden energy spike detected''"

abbreviation cooling_line :: string where
  "cooling_line \<equiv>
     ''High temperature '' @ [CHR 0xE2, CHR 0x86, CHR 0x92] @ '' increased cooling demand''"

abbreviation sunlight_line :: string where
  "sunlight_line \<equiv> ''Available sunlight not optimally utilized''"

abbreviation factory_line :: string where
  "factory_line \<equiv> ''Industrial processes generate recoverable waste''"

abbreviation grid_line :: string where
  "grid_line \<equiv> ''Grid-level load balancing opportunity detected''"

abbreviation load_reduction :: "string \<times> string" where
  "load_reduction \<equiv> (''IMMEDIATE'', ''Reduce non-essential electrical load'')"

abbreviation daylight_mirroring :: "string \<times> string" where
  "daylight_mirroring \<equiv> (''IMMEDIATE'', ''Activate Smart Daylight-Mirroring System'')"

abbreviation waste_recovery :: "string \<times> string" where
  "waste_recovery \<equiv> (''IMMEDIATE'', ''Enable ORC Waste Energy Recovery Line'')"

abbreviation geothermal_shift :: "string \<times> string" where
  "geothermal_shift \<equiv> (''HIGH'', ''Shift base load to geothermal supply'')"

abbreviation optimize_schedule :: "string \<times> string" where
  "optimize_schedule \<equiv> (''MEDIUM'', ''Optimize operational schedule'')"

abbreviation daylight_lighting :: "string \<times> string" where
  "daylight_lighting \<equiv> (''MEDIUM'', ''Increase daylight-based lighting usage'')"

abbreviation no_action :: "string \<times> string" where
  "no_action \<equiv> (''LOW'', ''No corrective action required'')"

subsection \<open>Main system\<close>

text \<open>
  The string methods \<^verbatim>\<open>main\<close> applies to what the user types, on ASCII text (a byte
  above 127 is left as it is): \<^verbatim>\<open>strip\<close> removes the white space at both ends,
  \<^verbatim>\<open>lower\<close> maps \<^verbatim>\<open>A\<close>..\<^verbatim>\<open>Z\<close> to \<^verbatim>\<open>a\<close>..\<^verbatim>\<open>z\<close>, and \<^verbatim>\<open>capitalize\<close> puts the
  first character in upper case and all the others in lower case.
\<close>

definition py_isspace :: "char \<Rightarrow> bool" where
  "py_isspace c = (let n = (of_char c :: nat) in (9 \<le> n \<and> n \<le> 13) \<or> (28 \<le> n \<and> n \<le> 32))"

definition strip :: "string \<Rightarrow> string" where
  "strip s = rev (dropWhile py_isspace (rev (dropWhile py_isspace s)))"

definition lower_char :: "char \<Rightarrow> char" where
  "lower_char c = (let n = (of_char c :: nat) in if 65 \<le> n \<and> n \<le> 90 then char_of (n + 32) else c)"

definition upper_char :: "char \<Rightarrow> char" where
  "upper_char c = (let n = (of_char c :: nat) in if 97 \<le> n \<and> n \<le> 122 then char_of (n - 32) else c)"

definition lower :: "string \<Rightarrow> string" where
  "lower s = map lower_char s"

definition capitalize :: "string \<Rightarrow> string" where
  "capitalize s = (case s of [] \<Rightarrow> [] | c # cs \<Rightarrow> upper_char c # map lower_char cs)"

text \<open>
  What the user enters at the six prompts of \<^verbatim>\<open>main\<close>. The three numbers are taken after
  \<^verbatim>\<open>float(...)\<close> has parsed them (text it refuses ends the run before anything below
  executes); the three other answers are the raw lines.
\<close>

record console_input =
  usage_in :: real
  expected_in :: real
  sector_in :: string
  time_in :: string
  sunlight_in :: string
  temperature_in :: real

text \<open>Lines 137 to 146 of \<^verbatim>\<open>main\<close>: the record built from the answers.\<close>

definition read_record :: "console_input \<Rightarrow> EnergyRecord" where
  "read_record inp =
     (let usage = usage_in inp;
          expected = expected_in inp;
          sector = capitalize (strip (sector_in inp));
          time = capitalize (strip (time_in inp));
          sunlight = (lower (sunlight_in inp) = ''yes'');
          temperature = temperature_in inp
      in \<lparr>usage = usage, expected_avg = expected, sector = sector, time = time,
          sunlight = sunlight, temperature = temperature\<rparr>)"

text \<open>What one evaluation computes and then prints.\<close>

record report =
  anomaly_of :: bool
  ratio_of :: real
  alert_of :: string
  score_of :: real
  reasons_of :: "string list"
  actions_of :: "(string \<times> string) list"
  confidence_of :: int

text \<open>
  Lines 148 to 157 of \<^verbatim>\<open>main\<close>, one evaluation cycle on a history and a record, in the
  order of the source: the anomaly check, then \<^verbatim>\<open>history.add\<close>, then the ratio (whose
  exception ends the run), the alert, the score and the decision. The printing is not
  modelled.
\<close>

definition main_cycle :: "EnergyHistory \<Rightarrow> EnergyRecord \<Rightarrow> error + (EnergyHistory \<times> report)" where
  "main_cycle history record =
     (let anomaly = anomaly_detected record history;
          history = add history record
      in case usage_ratio record of
           Inl e \<Rightarrow> Inl e
         | Inr ratio \<Rightarrow>
             (let alert = alert_level ratio anomaly;
                  score = efficiency_score ratio;
                  (reasons, actions, confidence) = decide record ratio anomaly alert
              in Inr (history,
                      \<lparr>anomaly_of = anomaly, ratio_of = ratio, alert_of = alert,
                       score_of = score, reasons_of = reasons, actions_of = actions,
                       confidence_of = confidence\<rparr>)))"

text \<open>\<^verbatim>\<open>main\<close>: a new, empty history, the record read from the console, one cycle.\<close>

definition main :: "console_input \<Rightarrow> error + (EnergyHistory \<times> report)" where
  "main inp =
     (let history = EnergyHistory_init;
          record = read_record inp
      in main_cycle history record)"

section \<open>Properties\<close>

subsection \<open>Rounding\<close>






subsection \<open>The two decimals of the ratio line\<close>


subsection \<open>The three results of \<^verbatim>\<open>decide\<close> in closed form\<close>

lemma decide_reasons:
  "fst (decide r ratio anomaly alert) =
     [ratio_line ratio] @
     (if anomaly then [spike_line] else []) @
     (if temperature r > 30 then [cooling_line] else []) @
     (if sunlight r \<and> time r = ''Day'' then [sunlight_line] else []) @
     (if sector r = ''Factory'' then [factory_line] else []) @
     (if sector r = ''Power Plant'' then [grid_line] else [])"
  by (simp add: decide_def Let_def split: prod.split)

lemma decide_actions:
  "fst (snd (decide r ratio anomaly alert)) =
     (if alert = ''CRITICAL'' then
        [load_reduction] @
        (if sunlight r then [daylight_mirroring] else []) @
        (if sector r = ''Factory'' \<or> sector r = ''Power Plant'' then [waste_recovery] else []) @
        [geothermal_shift]
      else if alert = ''WARNING'' then
        [optimize_schedule] @ (if sunlight r then [daylight_lighting] else [])
      else [no_action])"
  by (simp add: decide_def Let_def split: prod.split)

lemma decide_confidence:
  "snd (snd (decide r ratio anomaly alert)) =
     min 100
       ((if temperature r > 30 then 15 else 0) +
        (if sunlight r \<and> time r = ''Day'' then 20 else 0) +
        (if sector r = ''Factory'' then 20 else 0) +
        (if sector r = ''Power Plant'' then 20 else 0) + 30)"
  by (simp add: decide_def Let_def split: prod.split)

subsection \<open>The normalisation of the sector in \<^verbatim>\<open>main\<close>\<close>

lemma lower_char_not_upper_P: "lower_char c \<noteq> CHR ''P''"
proof
  assume "lower_char c = CHR ''P''"
  then have "(of_char (lower_char c) :: nat) = 80" by simp
  then show False
    by (auto simp: lower_char_def Let_def split: if_splits)
qed

lemma capitalize_not_Power_Plant: "capitalize s \<noteq> ''Power Plant''"
proof
  assume h: "capitalize s = ''Power Plant''"
  show False
  proof (cases s)
    case Nil
    with h show False by (simp add: capitalize_def)
  next
    case (Cons c cs)
    with h have m: "map lower_char cs = ''ower Plant''"
      by (simp add: capitalize_def)
    have "CHR ''P'' \<in> set ''ower Plant''" by simp
    then have "CHR ''P'' \<in> set (map lower_char cs)" by (simp only: m)
    then obtain x where "lower_char x = CHR ''P''" by auto
    then show False by (simp add: lower_char_not_upper_P)
  qed
qed

lemma read_record_sector: "sector (read_record inp) \<noteq> ''Power Plant''"
  by (simp add: read_record_def capitalize_not_Power_Plant)

subsection \<open>One cycle of \<^verbatim>\<open>main\<close>\<close>

lemma main_cycle_Inr:
  "main_cycle h r = Inr (h', d) \<longleftrightarrow>
     expected_avg r \<noteq> 0 \<and> h' = add h r \<and>
     d = (let ratio = usage r / expected_avg r; anomaly = anomaly_detected r h;
              alert = alert_level ratio anomaly; dec = decide r ratio anomaly alert
          in \<lparr>anomaly_of = anomaly, ratio_of = ratio, alert_of = alert,
              score_of = efficiency_score ratio, reasons_of = fst dec,
              actions_of = fst (snd dec), confidence_of = snd (snd dec)\<rparr>)"
  by (auto simp: main_cycle_def usage_ratio_def Let_def split: prod.splits)

lemma main_cycle_Inl:
  "main_cycle h r = Inl e \<longleftrightarrow> expected_avg r = 0 \<and> e = ZeroDivisionError"
  by (auto simp: main_cycle_def usage_ratio_def Let_def split: prod.splits)

text \<open>
  \<^verbatim>\<open>main\<close> itself runs one cycle on a history it has just created, so the anomaly flag
  of a run of \<^verbatim>\<open>main\<close> is always \<^verbatim>\<open>False\<close>.
\<close>

lemma main_no_anomaly:
  assumes "main inp = Inr (h, d)"
  shows "\<not> anomaly_of d \<and> records h = [read_record inp]"
  using assms
  by (simp add: main_def main_cycle_Inr Let_def EnergyHistory_init_def add_def
      anomaly_detected_def)

section \<open>The claims\<close>

subsection \<open>C1: a zero or negative expected average\<close>




subsection \<open>C2: the alert level\<close>


subsection \<open>C3: anomaly detection\<close>



subsection \<open>C4: the anomaly check comes before the append\<close>

text \<open>
  C4: in an evaluation cycle the anomaly flag is computed on the history as it is before
  the current record is appended, and the record is appended after the check. Over two
  successive cycles, the last record the second check compares with is the record of the
  first cycle, never the record being evaluated.
\<close>

theorem anomaly_before_append:
  assumes "main_cycle h r1 = Inr (h1, d1)" and "main_cycle h1 r2 = Inr (h2, d2)"
  shows "anomaly_of d1 = anomaly_detected r1 h \<and>
         records h1 = records h @ [r1] \<and>
         anomaly_of d2 = anomaly_detected r2 h1 \<and>
         anomaly_of d2 = (usage r2 > usage r1 * 1.25) \<and>
         records h2 = records h @ [r1, r2]"
  using assms
  by (simp add: main_cycle_Inr Let_def add_def anomaly_detected_def)

text \<open>
  Two cycles from an empty history, with usages 100 and then 126: the second cycle
  reports the anomaly (126 is above 125), where a comparison of the second record with
  itself would report none.
\<close>

theorem anomaly_before_append_witness:
  "main_cycle EnergyHistory_init
     \<lparr>usage = 100, expected_avg = 100, sector = ''Home'', time = ''Night'',
        sunlight = False, temperature = 20\<rparr> =
   Inr (\<lparr>records = [\<lparr>usage = 100, expected_avg = 100, sector = ''Home'', time = ''Night'',
                        sunlight = False, temperature = 20\<rparr>]\<rparr>,
        \<lparr>anomaly_of = False, ratio_of = 1, alert_of = ''NORMAL'', score_of = 100,
           reasons_of = [''Usage is 1.00'' @ [CHR 0xC3, CHR 0x97] @ '' expected level''],
           actions_of = [no_action], confidence_of = 30\<rparr>) \<and>
   main_cycle
     \<lparr>records = [\<lparr>usage = 100, expected_avg = 100, sector = ''Home'', time = ''Night'',
                    sunlight = False, temperature = 20\<rparr>]\<rparr>
     \<lparr>usage = 126, expected_avg = 140, sector = ''Home'', time = ''Night'',
        sunlight = False, temperature = 20\<rparr> =
   Inr (\<lparr>records = [\<lparr>usage = 100, expected_avg = 100, sector = ''Home'', time = ''Night'',
                        sunlight = False, temperature = 20\<rparr>,
                      \<lparr>usage = 126, expected_avg = 140, sector = ''Home'', time = ''Night'',
                        sunlight = False, temperature = 20\<rparr>]\<rparr>,
        \<lparr>anomaly_of = True, ratio_of = 0.9, alert_of = ''CRITICAL'', score_of = 92.5,
           reasons_of = [''Usage is 0.90'' @ [CHR 0xC3, CHR 0x97] @ '' expected level'',
                         spike_line],
           actions_of = [load_reduction, geothermal_shift], confidence_of = 30\<rparr>) \<and>
   \<not> anomaly_detected
     \<lparr>usage = 126, expected_avg = 140, sector = ''Home'', time = ''Night'',
        sunlight = False, temperature = 20\<rparr>
     \<lparr>records = [\<lparr>usage = 100, expected_avg = 100, sector = ''Home'', time = ''Night'',
                        sunlight = False, temperature = 20\<rparr>,
                      \<lparr>usage = 126, expected_avg = 140, sector = ''Home'', time = ''Night'',
                        sunlight = False, temperature = 20\<rparr>]\<rparr>"
proof -
  let ?r1 = "\<lparr>usage = 100, expected_avg = 100, sector = ''Home'', time = ''Night'',
        sunlight = False, temperature = 20\<rparr>"
  let ?r2 = "\<lparr>usage = 126, expected_avg = 140, sector = ''Home'', time = ''Night'',
        sunlight = False, temperature = 20\<rparr>"
  let ?d1 = "\<lparr>anomaly_of = False, ratio_of = 1, alert_of = ''NORMAL'', score_of = 100,
           reasons_of = [''Usage is 1.00'' @ [CHR 0xC3, CHR 0x97] @ '' expected level''],
           actions_of = [no_action], confidence_of = 30\<rparr>"
  let ?d2 = "\<lparr>anomaly_of = True, ratio_of = 0.9, alert_of = ''CRITICAL'', score_of = 92.5,
           reasons_of = [''Usage is 0.90'' @ [CHR 0xC3, CHR 0x97] @ '' expected level'',
                         spike_line],
           actions_of = [load_reduction, geothermal_shift], confidence_of = 30\<rparr>"
  have a: "main_cycle EnergyHistory_init ?r1 = Inr (\<lparr>records = [?r1]\<rparr>, ?d1)"
    by code_simp
  have b: "main_cycle \<lparr>records = [?r1]\<rparr> ?r2 = Inr (\<lparr>records = [?r1, ?r2]\<rparr>, ?d2)"
    by code_simp
  have c: "\<not> anomaly_detected ?r2 \<lparr>records = [?r1, ?r2]\<rparr>"
    by (simp add: anomaly_detected_def)
  from anomaly_before_append [OF a b] a b c show ?thesis by simp
qed

subsection \<open>C5: the efficiency score\<close>


subsection \<open>C6: the order of the reasons\<close>



subsection \<open>C7: the actions\<close>

text \<open>
  C7: the actions of \<^verbatim>\<open>decide\<close> are chosen by the alert alone, one branch out of three:
  \<^verbatim>\<open>CRITICAL\<close>, \<^verbatim>\<open>WARNING\<close>, and every other alert. They depend on nothing but the alert, the
  sunlight flag and the sector. For a \<^verbatim>\<open>CRITICAL\<close> alert with sunlight and the sector
  \<^verbatim>\<open>Power Plant\<close> they are exactly four: load reduction, daylight mirroring and waste-energy
  recovery at \<^verbatim>\<open>IMMEDIATE\<close>, then the geothermal shift at \<^verbatim>\<open>HIGH\<close>.
\<close>

theorem decide_actions_by_alert:
  "fst (snd (decide r ratio anomaly alert)) =
     (if alert = ''CRITICAL'' then
        [load_reduction] @
        (if sunlight r then [daylight_mirroring] else []) @
        (if sector r \<in> {''Factory'', ''Power Plant''} then [waste_recovery] else []) @
        [geothermal_shift]
      else if alert = ''WARNING'' then
        [optimize_schedule] @ (if sunlight r then [daylight_lighting] else [])
      else [no_action]) \<and>
   (alert = ''CRITICAL'' \<and> sunlight r \<and> sector r = ''Power Plant'' \<longrightarrow>
      fst (snd (decide r ratio anomaly alert)) =
        [load_reduction, daylight_mirroring, waste_recovery, geothermal_shift]) \<and>
   (hd (fst (snd (decide r ratio anomaly alert))) = load_reduction \<longleftrightarrow> alert = ''CRITICAL'') \<and>
   (hd (fst (snd (decide r ratio anomaly alert))) = optimize_schedule \<longleftrightarrow> alert = ''WARNING'') \<and>
   (hd (fst (snd (decide r ratio anomaly alert))) = no_action \<longleftrightarrow>
      alert \<noteq> ''CRITICAL'' \<and> alert \<noteq> ''WARNING'') \<and>
   fst (snd (decide r ratio anomaly alert)) =
     fst (snd (decide \<lparr>usage = u, expected_avg = e, sector = sector r, time = t,
                        sunlight = sunlight r, temperature = c\<rparr> ratio' anomaly' alert))"
  by (simp add: decide_actions)

theorem decide_actions_by_alert_witness:
  "fst (snd (decide \<lparr>usage = 700, expected_avg = 500, sector = ''Power Plant'', time = ''Night'',
            sunlight = True, temperature = 12\<rparr> 1.4 False ''CRITICAL'')) =
     [load_reduction, daylight_mirroring, waste_recovery, geothermal_shift] \<and>
   length (fst (snd (decide \<lparr>usage = 700, expected_avg = 500, sector = ''Power Plant'',
            time = ''Night'', sunlight = True, temperature = 12\<rparr> 1.4 False ''CRITICAL''))) = 4"
  using decide_actions_by_alert [of "\<lparr>usage = 700, expected_avg = 500, sector = ''Power Plant'',
            time = ''Night'', sunlight = True, temperature = 12\<rparr>" "1.4" False "''CRITICAL''"]
  by simp

subsection \<open>C8: the confidence\<close>

text \<open>
  C8: the confidence of \<^verbatim>\<open>decide\<close> starts at 0, gains 15 for a temperature above 30, 20 for
  sunlight by day, 20 for the sector \<^verbatim>\<open>Factory\<close> and 20 for the sector \<^verbatim>\<open>Power Plant\<close>, and is
  then the minimum of 100 and the sum plus 30, whatever reasons fired. It is an integer
  between 0 and 100.
\<close>

theorem decide_confidence_formula:
  "snd (snd (decide r ratio anomaly alert)) =
     min 100
       ((0 + (if temperature r > 30 then 15 else 0)
           + (if sunlight r \<and> time r = ''Day'' then 20 else 0)
           + (if sector r = ''Factory'' then 20 else 0)
           + (if sector r = ''Power Plant'' then 20 else 0)) + 30) \<and>
   0 \<le> snd (snd (decide r ratio anomaly alert)) \<and>
   snd (snd (decide r ratio anomaly alert)) \<le> 100 \<and>
   snd (snd (decide r ratio anomaly alert)) \<in> {30, 45, 50, 65, 70, 85}"
  by (simp add: decide_confidence)

subsection \<open>C9: the trend average\<close>



subsection \<open>C10: the sector entered at the console\<close>

text \<open>
  C10: the sector that \<^verbatim>\<open>main\<close> stores is \<^verbatim>\<open>strip\<close> followed by \<^verbatim>\<open>capitalize\<close> of the
  line the user types, and that is never the string \<^verbatim>\<open>Power Plant\<close>, whose second capital
  letter \<^verbatim>\<open>capitalize\<close> cannot produce. So in a run of \<^verbatim>\<open>main\<close> the grid-balancing reason
  and its 20 points of confidence never appear, and the waste-energy recovery action
  appears for the sector \<^verbatim>\<open>Factory\<close> only.
\<close>

theorem sector_never_Power_Plant:
  "capitalize (strip s) \<noteq> ''Power Plant'' \<and>
   sector (read_record inp) \<noteq> ''Power Plant'' \<and>
   (main inp = Inr (h, d) \<longrightarrow>
      grid_line \<notin> set (reasons_of d) \<and>
      confidence_of d =
        (if temperature (read_record inp) > 30 then 15 else 0) +
        (if sunlight (read_record inp) \<and> time (read_record inp) = ''Day'' then 20 else 0) +
        (if sector (read_record inp) = ''Factory'' then 20 else 0) + 30 \<and>
      (waste_recovery \<in> set (actions_of d) \<longrightarrow> sector (read_record inp) = ''Factory''))"
proof -
  have a: "capitalize (strip s) \<noteq> ''Power Plant''"
    by (rule capitalize_not_Power_Plant)
  have b: "sector (read_record inp) \<noteq> ''Power Plant''"
    by (rule read_record_sector)
  have c: "grid_line \<notin> set (reasons_of d) \<and>
      confidence_of d =
        (if temperature (read_record inp) > 30 then 15 else 0) +
        (if sunlight (read_record inp) \<and> time (read_record inp) = ''Day'' then 20 else 0) +
        (if sector (read_record inp) = ''Factory'' then 20 else 0) + 30 \<and>
      (waste_recovery \<in> set (actions_of d) \<longrightarrow> sector (read_record inp) = ''Factory'')"
    if m: "main inp = Inr (h, d)"
  proof -
    let ?r = "read_record inp"
    let ?ratio = "usage ?r / expected_avg ?r"
    let ?alert = "alert_level ?ratio False"
    from m have an: "\<not> anomaly_of d" by (simp add: main_no_anomaly)
    from m have d: "reasons_of d = fst (decide ?r ?ratio (anomaly_of d) (alert_of d))"
        "actions_of d = fst (snd (decide ?r ?ratio (anomaly_of d) (alert_of d)))"
        "confidence_of d = snd (snd (decide ?r ?ratio (anomaly_of d) (alert_of d)))"
      by (simp_all add: main_def main_cycle_Inr Let_def)
    have r: "grid_line \<notin> set (reasons_of d)"
      unfolding d decide_reasons using b by simp
    have k: "confidence_of d =
        (if temperature ?r > 30 then 15 else 0) +
        (if sunlight ?r \<and> time ?r = ''Day'' then 20 else 0) +
        (if sector ?r = ''Factory'' then 20 else 0) + 30"
      unfolding d decide_confidence using b by simp
    have w: "waste_recovery \<in> set (actions_of d) \<longrightarrow> sector ?r = ''Factory''"
      unfolding d decide_actions using b by (simp split: if_splits)
    from r k w show ?thesis by blast
  qed
  from a b c show ?thesis by blast
qed

text \<open>The user types \<^verbatim>\<open>Power Plant\<close> exactly: the stored sector is \<^verbatim>\<open>Power plant\<close>.\<close>

theorem sector_never_Power_Plant_witness:
  "capitalize (strip ''Power Plant'') = ''Power plant'' \<and>
   main \<lparr>usage_in = 700, expected_in = 500, sector_in = ''Power Plant'', time_in = ''Day'',
          sunlight_in = ''yes'', temperature_in = 35\<rparr> =
   Inr (\<lparr>records = [\<lparr>usage = 700, expected_avg = 500, sector = ''Power plant'', time = ''Day'',
                        sunlight = True, temperature = 35\<rparr>]\<rparr>,
        \<lparr>anomaly_of = False, ratio_of = 1.4, alert_of = ''CRITICAL'', score_of = 70,
           reasons_of = [''Usage is 1.40'' @ [CHR 0xC3, CHR 0x97] @ '' expected level'',
                         cooling_line, sunlight_line],
           actions_of = [load_reduction, daylight_mirroring, geothermal_shift],
           confidence_of = 65\<rparr>)"
proof -
  let ?inp = "\<lparr>usage_in = 700, expected_in = 500, sector_in = ''Power Plant'', time_in = ''Day'',
          sunlight_in = ''yes'', temperature_in = 35\<rparr>"
  let ?h = "\<lparr>records = [\<lparr>usage = 700, expected_avg = 500, sector = ''Power plant'', time = ''Day'',
                        sunlight = True, temperature = 35\<rparr>]\<rparr>"
  let ?d = "\<lparr>anomaly_of = False, ratio_of = 1.4, alert_of = ''CRITICAL'', score_of = 70,
           reasons_of = [''Usage is 1.40'' @ [CHR 0xC3, CHR 0x97] @ '' expected level'',
                         cooling_line, sunlight_line],
           actions_of = [load_reduction, daylight_mirroring, geothermal_shift],
           confidence_of = 65\<rparr>"
  have c: "capitalize (strip ''Power Plant'') = ''Power plant''" by code_simp
  have m: "main ?inp = Inr (?h, ?d)" by code_simp
  from sector_never_Power_Plant [of "''Power Plant''" ?inp ?h ?d] c m
  show ?thesis by simp
qed

end
